theory Spec2Isabelle
  imports Complex_Main
begin

section \<open>Data model\<close>

text \<open>
  The engine works on Python floats and on \<^verbatim>\<open>datetime\<close> values normalised to the first
  day of their month. In this development a float is a \<^typ>\<open>real\<close> (rounding, overflow and
  NaN are outside the model) and a normalised date is its month index
  \<open>12 * year + (month - 1)\<close>, an \<^typ>\<open>int\<close>; \<^verbatim>\<open>relativedelta(months=1)\<close> adds one to it
  (\<^verbatim>\<open>datetime\<close> itself ends in December 9999, the index does not). The \<^verbatim>\<open>'%Y-%m'\<close> label
  of a record and the date parsed back from it by the analyzer are the same month index.
\<close>

type_synonym month = int

subsection \<open>Rate conversion (utils.py)\<close>

definition get_compounding_frequency_value :: "string \<Rightarrow> nat" where
  "get_compounding_frequency_value frequency_str =
     (if frequency_str = ''Daily'' then 365
      else if frequency_str = ''Monthly'' then 12
      else if frequency_str = ''Quarterly'' then 4
      else if frequency_str = ''Annually'' then 1
      else 0)"

text \<open>
  The frequency is one of the values above, a natural number. \<^verbatim>\<open>x ** n\<close> with an integer
  \<open>n\<close> is the power \<open>x ^ n\<close>; \<^verbatim>\<open>x ** (1/12)\<close> is \<open>x powr (1/12)\<close>, which agrees with Python
  for \<open>x \<ge> 0\<close> (for a negative base Python answers with a complex number, \<open>powr\<close> with an
  unspecified real). The function below is the exact value of the formula. The program
  computes it on floats: there \<^verbatim>\<open>1 + annual_rate / n\<close> absorbs a rate too small to show in
  the sum, so that distinct rates can give equal results, and the power raises
  \<^verbatim>\<open>OverflowError\<close> for very large rates. Neither effect is part of this function, and
  nothing below speaks about how float results of distinct rates compare.
\<close>

definition get_monthly_rate :: "real \<Rightarrow> nat \<Rightarrow> real" where
  "get_monthly_rate annual_rate compounding_frequency_value =
     (if compounding_frequency_value = 0 then 0
      else if annual_rate = 0 then 0
      else
        let effective_annual_rate =
              (1 + annual_rate / real compounding_frequency_value) ^ compounding_frequency_value - 1;
            monthly_rate = (1 + effective_annual_rate) powr (1 / 12) - 1
        in monthly_rate)"

subsection \<open>Simulation parameters and monthly records (calculations.py)\<close>

text \<open>
  The arguments shared by both simulator variants, and the further arguments of each.
  \<open>s2_pension_start_date\<close> is the transition month of variant A (the user turns 60)
  and the pension start of variant B.
\<close>

record common_args =
  end_date :: month
  initial_lump_sum_val :: real
  lump_sum_date_val :: month
  monthly_contribution_val :: real
  s2_pension_start_date :: month

record scheme1_args = common_args +
  s1_contribution_to_provider_end_date_val :: month
  s1_pension_amount :: real
  s1_pension_start_date :: month
  s1_reinvestment_rate :: real
  s1_reinvestment_compounding_frequency :: nat
  s1_sip_fund_growth_rate :: real
  s1_sip_fund_compounding_frequency :: nat
  enable_tax :: bool
  tax_rate :: real

record scheme2_args = common_args +
  s2_contribution_to_provider_end_date_val :: month
  s2_pension_amount :: real
  s2_reinvestment_rate :: real
  s2_reinvestment_compounding_frequency :: nat

text \<open>
  A monthly record is a dictionary; the keys both variants write are the fields of
  \<open>monthly_record\<close>, the keys of one variant only extend it.
\<close>

record monthly_record =
  Date :: month
  Contributions_Paid_This_Month :: real
  Cumulative_Contributions_Paid :: real
  Pension_Received_This_Month_Net :: real
  Pension_Reinvestment_Pot :: real
  Total_Accumulated_Value :: real

record scheme1_record = monthly_record +
  Pension_Received_This_Month_Gross :: real
  Tax_on_Pension_This_Month :: real
  Monthly_SIP_Contribution :: real
  Interest_on_Separate_SIP_Fund :: real
  Separate_SIP_Fund_Balance :: real
  Interest_on_Pension_Reinvestment_Gross :: real
  Tax_on_Reinvestment_Interest_This_Month :: real
  Interest_on_Pension_Reinvestment_Net :: real

record scheme2_record = monthly_record +
  Interest_on_Reinvestment_Net :: real

subsection \<open>Variant A: \<^verbatim>\<open>calculate_scheme1_logic\<close>\<close>

text \<open>
  The local variables of the function: the seven running balances and totals, then the
  nine values that each iteration of the loop resets.
\<close>

record scheme1_vars =
  cumulative_contributions_paid_to_provider :: real
  pension_reinvestment_pot_s1 :: real
  pension_reinvestment_interest_earned_s1 :: real
  sip_fund_balance_s1 :: real
  sip_fund_interest_earned_s1 :: real
  total_tax_paid_on_pension :: real
  total_tax_paid_on_reinvestment_interest :: real
  contribution_paid_this_month :: real
  pension_received_this_month_gross :: real
  pension_received_this_month_net :: real
  tax_on_pension_this_month :: real
  interest_earned_on_reinvestment_gross :: real
  interest_earned_on_reinvestment_net :: real
  tax_on_reinvestment_interest_this_month :: real
  interest_earned_on_sip_fund :: real
  added_to_sip_fund_this_month :: real

definition scheme1_init :: scheme1_vars where
  "scheme1_init =
     \<lparr>cumulative_contributions_paid_to_provider = 0,
      pension_reinvestment_pot_s1 = 0,
      pension_reinvestment_interest_earned_s1 = 0,
      sip_fund_balance_s1 = 0,
      sip_fund_interest_earned_s1 = 0,
      total_tax_paid_on_pension = 0,
      total_tax_paid_on_reinvestment_interest = 0,
      contribution_paid_this_month = 0,
      pension_received_this_month_gross = 0,
      pension_received_this_month_net = 0,
      tax_on_pension_this_month = 0,
      interest_earned_on_reinvestment_gross = 0,
      interest_earned_on_reinvestment_net = 0,
      tax_on_reinvestment_interest_this_month = 0,
      interest_earned_on_sip_fund = 0,
      added_to_sip_fund_this_month = 0\<rparr>"

text \<open>The values for the current month, reset at the top of the loop body.\<close>

definition s1_reset_month :: "scheme1_vars \<Rightarrow> scheme1_vars" where
  "s1_reset_month v =
     v\<lparr>contribution_paid_this_month := 0,
       pension_received_this_month_gross := 0,
       pension_received_this_month_net := 0,
       tax_on_pension_this_month := 0,
       interest_earned_on_reinvestment_gross := 0,
       interest_earned_on_reinvestment_net := 0,
       tax_on_reinvestment_interest_this_month := 0,
       interest_earned_on_sip_fund := 0,
       added_to_sip_fund_this_month := 0\<rparr>"

text \<open>1. Lump sum payment.\<close>

definition s1_lump_sum :: "scheme1_args \<Rightarrow> month \<Rightarrow> scheme1_vars \<Rightarrow> scheme1_vars" where
  "s1_lump_sum a current_date v =
     (if current_date = lump_sum_date_val a then
        v\<lparr>cumulative_contributions_paid_to_provider :=
             cumulative_contributions_paid_to_provider v + initial_lump_sum_val a,
          contribution_paid_this_month :=
             contribution_paid_this_month v + initial_lump_sum_val a\<rparr>
      else v)"

text \<open>2. Monthly contribution: to the provider, or into the SIP fund, which then grows.\<close>

definition s1_contribution :: "scheme1_args \<Rightarrow> real \<Rightarrow> month \<Rightarrow> scheme1_vars \<Rightarrow> scheme1_vars" where
  "s1_contribution a monthly_sip_rate_s1 current_date v =
     (if current_date \<le> s1_contribution_to_provider_end_date_val a then
        v\<lparr>cumulative_contributions_paid_to_provider :=
             cumulative_contributions_paid_to_provider v + monthly_contribution_val a,
          contribution_paid_this_month :=
             contribution_paid_this_month v + monthly_contribution_val a\<rparr>
      else if s1_contribution_to_provider_end_date_val a < current_date
              \<and> current_date < s2_pension_start_date a then
        let sip = sip_fund_balance_s1 v + monthly_contribution_val a;
            current_sip_interest = sip * monthly_sip_rate_s1
        in v\<lparr>sip_fund_balance_s1 := sip + current_sip_interest,
             added_to_sip_fund_this_month :=
               added_to_sip_fund_this_month v + monthly_contribution_val a,
             sip_fund_interest_earned_s1 := sip_fund_interest_earned_s1 v + current_sip_interest,
             interest_earned_on_sip_fund := current_sip_interest\<rparr>
      else v)"

text \<open>3. Pension payout into the reinvestment pot, taxed before the transition month.\<close>

definition s1_pension :: "scheme1_args \<Rightarrow> month \<Rightarrow> scheme1_vars \<Rightarrow> scheme1_vars" where
  "s1_pension a current_date v =
     (if current_date \<ge> s1_pension_start_date a then
        let gross = s1_pension_amount a;
            tax = (if enable_tax a \<and> current_date < s2_pension_start_date a
                   then gross * tax_rate a else 0);
            net = (if enable_tax a \<and> current_date < s2_pension_start_date a
                   then gross - tax else gross)
        in v\<lparr>pension_received_this_month_gross := gross,
             tax_on_pension_this_month := tax,
             pension_received_this_month_net := net,
             pension_reinvestment_pot_s1 := pension_reinvestment_pot_s1 v + net,
             total_tax_paid_on_pension := total_tax_paid_on_pension v + tax\<rparr>
      else v)"

text \<open>4. Merger of the SIP fund into the reinvestment pot.\<close>

definition s1_merger :: "scheme1_args \<Rightarrow> month \<Rightarrow> scheme1_vars \<Rightarrow> scheme1_vars" where
  "s1_merger a current_date v =
     (if current_date = s2_pension_start_date a then
        v\<lparr>pension_reinvestment_pot_s1 := pension_reinvestment_pot_s1 v + sip_fund_balance_s1 v,
          sip_fund_balance_s1 := 0\<rparr>
      else v)"

text \<open>
  5. Growth of the reinvestment pot. The gross interest is held in the local
  \<^verbatim>\<open>current_reinvestment_interest_gross\<close>; the variable
  \<^verbatim>\<open>interest_earned_on_reinvestment_gross\<close> is not assigned here.
\<close>

definition s1_growth :: "scheme1_args \<Rightarrow> real \<Rightarrow> month \<Rightarrow> scheme1_vars \<Rightarrow> scheme1_vars" where
  "s1_growth a monthly_reinvestment_rate_s1 current_date v =
     (if pension_reinvestment_pot_s1 v > 0 then
        let current_reinvestment_interest_gross =
              pension_reinvestment_pot_s1 v * monthly_reinvestment_rate_s1;
            tax = (if enable_tax a \<and> current_date < s2_pension_start_date a
                   then current_reinvestment_interest_gross * tax_rate a else 0);
            net = (if enable_tax a \<and> current_date < s2_pension_start_date a
                   then current_reinvestment_interest_gross - tax
                   else current_reinvestment_interest_gross)
        in v\<lparr>tax_on_reinvestment_interest_this_month := tax,
             interest_earned_on_reinvestment_net := net,
             pension_reinvestment_pot_s1 := pension_reinvestment_pot_s1 v + net,
             pension_reinvestment_interest_earned_s1 :=
               pension_reinvestment_interest_earned_s1 v + net,
             total_tax_paid_on_reinvestment_interest :=
               total_tax_paid_on_reinvestment_interest v + tax\<rparr>
      else v)"

text \<open>The variables at the end of one iteration, before the record is appended.\<close>

definition scheme1_month ::
  "scheme1_args \<Rightarrow> real \<Rightarrow> real \<Rightarrow> month \<Rightarrow> scheme1_vars \<Rightarrow> scheme1_vars" where
  "scheme1_month a monthly_sip_rate_s1 monthly_reinvestment_rate_s1 current_date v =
     s1_growth a monthly_reinvestment_rate_s1 current_date
       (s1_merger a current_date
         (s1_pension a current_date
           (s1_contribution a monthly_sip_rate_s1 current_date
             (s1_lump_sum a current_date (s1_reset_month v)))))"

definition scheme1_emit :: "month \<Rightarrow> scheme1_vars \<Rightarrow> scheme1_record" where
  "scheme1_emit current_date v =
     (let current_total_value = pension_reinvestment_pot_s1 v + sip_fund_balance_s1 v in
      \<lparr>Date = current_date,
       Contributions_Paid_This_Month = contribution_paid_this_month v,
       Cumulative_Contributions_Paid = cumulative_contributions_paid_to_provider v,
       Pension_Received_This_Month_Net = pension_received_this_month_net v,
       Pension_Reinvestment_Pot = pension_reinvestment_pot_s1 v,
       Total_Accumulated_Value = current_total_value,
       Pension_Received_This_Month_Gross = pension_received_this_month_gross v,
       Tax_on_Pension_This_Month = tax_on_pension_this_month v,
       Monthly_SIP_Contribution = added_to_sip_fund_this_month v,
       Interest_on_Separate_SIP_Fund = interest_earned_on_sip_fund v,
       Separate_SIP_Fund_Balance = sip_fund_balance_s1 v,
       Interest_on_Pension_Reinvestment_Gross = interest_earned_on_reinvestment_gross v,
       Tax_on_Reinvestment_Interest_This_Month = tax_on_reinvestment_interest_this_month v,
       Interest_on_Pension_Reinvestment_Net = interest_earned_on_reinvestment_net v\<rparr>)"

text \<open>
  The \<^verbatim>\<open>while current_date <= end_date_dt\<close> loop. The dates normalised before the loop
  (\<open>lump_sum_dt\<close>, \<open>s1_contrib_end_dt\<close>, \<open>s1_pension_start_dt\<close>, \<open>s2_pension_start_dt\<close>)
  are the month indices held in the arguments.
\<close>

function scheme1_loop ::
  "scheme1_args \<Rightarrow> month \<Rightarrow> real \<Rightarrow> real \<Rightarrow> month \<Rightarrow> scheme1_vars \<Rightarrow> scheme1_record list
     \<Rightarrow> scheme1_vars \<times> scheme1_record list" where
  "scheme1_loop a end_date_dt monthly_sip_rate_s1 monthly_reinvestment_rate_s1 current_date v records =
     (if current_date \<le> end_date_dt then
        let v' = scheme1_month a monthly_sip_rate_s1 monthly_reinvestment_rate_s1 current_date v
        in scheme1_loop a end_date_dt monthly_sip_rate_s1 monthly_reinvestment_rate_s1
             (current_date + 1) v' (records @ [scheme1_emit current_date v'])
      else (v, records))"
  by pat_completeness auto
termination
  by (relation "measure (\<lambda>(a, end_date_dt, ms, mr, current_date, v, records).
                   nat (end_date_dt + 1 - current_date))")
     auto

declare scheme1_loop.simps [simp del]

text \<open>
  The result tuple: the records, the total interest earned, the final value, the tax paid
  on pension and the tax paid on reinvestment interest.
\<close>

definition calculate_scheme1_logic ::
  "scheme1_args \<Rightarrow> scheme1_record list \<times> real \<times> real \<times> real \<times> real" where
  "calculate_scheme1_logic a =
     (let end_date_dt = end_date a;
          monthly_sip_rate_s1 =
            get_monthly_rate (s1_sip_fund_growth_rate a) (s1_sip_fund_compounding_frequency a);
          monthly_reinvestment_rate_s1 =
            get_monthly_rate (s1_reinvestment_rate a) (s1_reinvestment_compounding_frequency a);
          (v, records) =
            scheme1_loop a end_date_dt monthly_sip_rate_s1 monthly_reinvestment_rate_s1
              (lump_sum_date_val a) scheme1_init [];
          total_interest_earned_overall =
            pension_reinvestment_interest_earned_s1 v + sip_fund_interest_earned_s1 v;
          final_scheme_value_s1 =
            (if records \<noteq> [] then Total_Accumulated_Value (last records) else 0)
      in (records, total_interest_earned_overall, final_scheme_value_s1,
          total_tax_paid_on_pension v, total_tax_paid_on_reinvestment_interest v))"

subsection \<open>Variant B: \<^verbatim>\<open>calculate_scheme2_logic\<close>\<close>

text \<open>
  The local variables of the function. Three of them have the names of variant A's
  locals in the source and carry the suffix \<open>_s2\<close> here.
\<close>

record scheme2_vars =
  cumulative_contributions_paid_to_provider_s2 :: real
  pension_reinvestment_pot_s2 :: real
  pension_reinvestment_interest_earned_s2 :: real
  contribution_paid_this_month_s2 :: real
  pension_received_this_month_net_s2 :: real
  interest_on_pension_reinvestment_net :: real

definition scheme2_init :: scheme2_vars where
  "scheme2_init =
     \<lparr>cumulative_contributions_paid_to_provider_s2 = 0,
      pension_reinvestment_pot_s2 = 0,
      pension_reinvestment_interest_earned_s2 = 0,
      contribution_paid_this_month_s2 = 0,
      pension_received_this_month_net_s2 = 0,
      interest_on_pension_reinvestment_net = 0\<rparr>"

definition s2_reset_month :: "scheme2_vars \<Rightarrow> scheme2_vars" where
  "s2_reset_month v =
     v\<lparr>contribution_paid_this_month_s2 := 0,
       pension_received_this_month_net_s2 := 0,
       interest_on_pension_reinvestment_net := 0\<rparr>"

definition s2_lump_sum :: "scheme2_args \<Rightarrow> month \<Rightarrow> scheme2_vars \<Rightarrow> scheme2_vars" where
  "s2_lump_sum a current_date v =
     (if current_date = lump_sum_date_val a then
        v\<lparr>cumulative_contributions_paid_to_provider_s2 :=
             cumulative_contributions_paid_to_provider_s2 v + initial_lump_sum_val a,
          contribution_paid_this_month_s2 :=
             contribution_paid_this_month_s2 v + initial_lump_sum_val a\<rparr>
      else v)"

definition s2_contribution :: "scheme2_args \<Rightarrow> month \<Rightarrow> scheme2_vars \<Rightarrow> scheme2_vars" where
  "s2_contribution a current_date v =
     (if current_date \<le> s2_contribution_to_provider_end_date_val a then
        v\<lparr>cumulative_contributions_paid_to_provider_s2 :=
             cumulative_contributions_paid_to_provider_s2 v + monthly_contribution_val a,
          contribution_paid_this_month_s2 :=
             contribution_paid_this_month_s2 v + monthly_contribution_val a\<rparr>
      else v)"

definition s2_pension :: "scheme2_args \<Rightarrow> month \<Rightarrow> scheme2_vars \<Rightarrow> scheme2_vars" where
  "s2_pension a current_date v =
     (if current_date \<ge> s2_pension_start_date a then
        v\<lparr>pension_received_this_month_net_s2 := s2_pension_amount a,
          pension_reinvestment_pot_s2 := pension_reinvestment_pot_s2 v + s2_pension_amount a\<rparr>
      else v)"

definition s2_growth :: "real \<Rightarrow> scheme2_vars \<Rightarrow> scheme2_vars" where
  "s2_growth monthly_reinvestment_rate_s2 v =
     (if pension_reinvestment_pot_s2 v > 0 then
        let interest = pension_reinvestment_pot_s2 v * monthly_reinvestment_rate_s2
        in v\<lparr>interest_on_pension_reinvestment_net := interest,
             pension_reinvestment_pot_s2 := pension_reinvestment_pot_s2 v + interest,
             pension_reinvestment_interest_earned_s2 :=
               pension_reinvestment_interest_earned_s2 v + interest\<rparr>
      else v)"

definition scheme2_month :: "scheme2_args \<Rightarrow> real \<Rightarrow> month \<Rightarrow> scheme2_vars \<Rightarrow> scheme2_vars" where
  "scheme2_month a monthly_reinvestment_rate_s2 current_date v =
     s2_growth monthly_reinvestment_rate_s2
       (s2_pension a current_date
         (s2_contribution a current_date
           (s2_lump_sum a current_date (s2_reset_month v))))"

definition scheme2_emit :: "month \<Rightarrow> scheme2_vars \<Rightarrow> scheme2_record" where
  "scheme2_emit current_date v =
     \<lparr>Date = current_date,
      Contributions_Paid_This_Month = contribution_paid_this_month_s2 v,
      Cumulative_Contributions_Paid = cumulative_contributions_paid_to_provider_s2 v,
      Pension_Received_This_Month_Net = pension_received_this_month_net_s2 v,
      Pension_Reinvestment_Pot = pension_reinvestment_pot_s2 v,
      Total_Accumulated_Value = pension_reinvestment_pot_s2 v,
      Interest_on_Reinvestment_Net = interest_on_pension_reinvestment_net v\<rparr>"

function scheme2_loop ::
  "scheme2_args \<Rightarrow> month \<Rightarrow> real \<Rightarrow> month \<Rightarrow> scheme2_vars \<Rightarrow> scheme2_record list
     \<Rightarrow> scheme2_vars \<times> scheme2_record list" where
  "scheme2_loop a end_date_dt monthly_reinvestment_rate_s2 current_date v records =
     (if current_date \<le> end_date_dt then
        let v' = scheme2_month a monthly_reinvestment_rate_s2 current_date v
        in scheme2_loop a end_date_dt monthly_reinvestment_rate_s2 (current_date + 1) v'
             (records @ [scheme2_emit current_date v'])
      else (v, records))"
  by pat_completeness auto
termination
  by (relation "measure (\<lambda>(a, end_date_dt, mr, current_date, v, records).
                   nat (end_date_dt + 1 - current_date))")
     auto

declare scheme2_loop.simps [simp del]

text \<open>
  Variant B returns the pot itself as final value, and its two tax totals are the
  constants 0 set before the loop.
\<close>

definition calculate_scheme2_logic ::
  "scheme2_args \<Rightarrow> scheme2_record list \<times> real \<times> real \<times> real \<times> real" where
  "calculate_scheme2_logic a =
     (let end_date_dt = end_date a;
          monthly_reinvestment_rate_s2 =
            get_monthly_rate (s2_reinvestment_rate a) (s2_reinvestment_compounding_frequency a);
          (v, records) =
            scheme2_loop a end_date_dt monthly_reinvestment_rate_s2 (lump_sum_date_val a)
              scheme2_init []
      in (records, pension_reinvestment_interest_earned_s2 v, pension_reinvestment_pot_s2 v,
          0, 0))"

subsection \<open>Comparison: \<^verbatim>\<open>analyze_scheme_performance\<close>\<close>

datatype py_error = KeyError

text \<open>
  \<^verbatim>\<open>pd.DataFrame(records)[['Date', 'Total Accumulated Value (User)']]\<close>: a frame built from
  an empty list has no columns, and selecting columns by a list of labels that are all
  missing raises \<^verbatim>\<open>KeyError\<close>. A frame built from a non-empty list of records has both
  columns, and the selection keeps them row by row.
\<close>

definition select_date_and_total ::
  "'a monthly_record_scheme list \<Rightarrow> py_error + (month \<times> real) list" where
  "select_date_and_total records =
     (if records = [] then Inl KeyError
      else Inr (map (\<lambda>r. (Date r, Total_Accumulated_Value r)) records))"

text \<open>
  \<^verbatim>\<open>df1.merge(df2, on='Date', how='outer').fillna(0)\<close>. An outer merge takes the months
  that occur in either frame in ascending order. For a month that both frames hold it
  pairs every row of the first frame with every row of the second, first frame's rows in
  their order and, for each, the second frame's rows in their order; for a month that one
  frame lacks it keeps the other frame's rows, and \<^verbatim>\<open>fillna(0)\<close> puts 0 in the missing
  column. With one record per month in each series this is one row per month.
\<close>

definition month_values :: "(month \<times> real) list \<Rightarrow> month \<Rightarrow> real list" where
  "month_values df d = map snd (filter (\<lambda>row. fst row = d) df)"

definition merge_month ::
  "(month \<times> real) list \<Rightarrow> (month \<times> real) list \<Rightarrow> month \<Rightarrow> (month \<times> real \<times> real) list" where
  "merge_month df1 df2 d =
     (let xs = month_values df1 d; ys = month_values df2 d in
      if xs = [] then map (\<lambda>y. (d, 0, y)) ys
      else if ys = [] then map (\<lambda>x. (d, x, 0)) xs
      else concat (map (\<lambda>x. map (\<lambda>y. (d, x, y)) ys) xs))"

definition merge_outer ::
  "(month \<times> real) list \<Rightarrow> (month \<times> real) list \<Rightarrow> (month \<times> real \<times> real) list" where
  "merge_outer df1 df2 =
     concat (map (merge_month df1 df2) (sort (remdups (map fst df1 @ map fst df2))))"

text \<open>
  \<^verbatim>\<open>combined_df.sort_values('Date').reset_index(drop=True)\<close>: the rows in ascending order
  of their month, rows of the same month in the order the merge gave them.
\<close>

definition sort_values_Date :: "(month \<times> real \<times> real) list \<Rightarrow> (month \<times> real \<times> real) list" where
  "sort_values_Date rows = sort_key fst rows"

text \<open>
  An overtake message
  \<^verbatim>\<open>f"{X} overtakes {Y} on {current_date.strftime('%B %Y')}"\<close> is kept as its three
  parts; a ranking line \<^verbatim>\<open>f"{i+1}. {scheme_name} (Rs{value:,.2f})"\<close> likewise.
\<close>

datatype overtake = Overtakes string string month

datatype ranking_line = Rank nat string real | No_data_to_determine_ranking

definition scheme58 :: string where
  "scheme58 = ''Pension Scheme 58 Years Old''"

definition scheme60 :: string where
  "scheme60 = ''Pension Scheme 60 Years Old''"

text \<open>The \<^verbatim>\<open>for i in range(len(combined_df))\<close> loop, with \<open>prev_s1\<close> and \<open>prev_s2\<close>.\<close>

fun overtake_loop ::
  "real \<Rightarrow> real \<Rightarrow> (month \<times> real \<times> real) list \<Rightarrow> overtake list \<Rightarrow> overtake list" where
  "overtake_loop prev_s1 prev_s2 [] overtakes = overtakes"
| "overtake_loop prev_s1 prev_s2 ((current_date, s1_val, s2_val) # rows) overtakes =
     (let overtakes1 =
            (if s1_val > s2_val \<and> prev_s1 \<le> prev_s2 \<and> s1_val > 0
             then overtakes @ [Overtakes scheme58 scheme60 current_date] else overtakes);
          overtakes2 =
            (if s2_val > s1_val \<and> prev_s2 \<le> prev_s1 \<and> s2_val > 0
             then overtakes1 @ [Overtakes scheme60 scheme58 current_date] else overtakes1)
      in overtake_loop s1_val s2_val rows overtakes2)"

text \<open>
  \<^verbatim>\<open>sorted(final_values.items(), key=lambda item: item[1], reverse=True)\<close>: a stable sort
  by descending value, then numbered from 1.
\<close>

definition rank_schemes :: "(string \<times> real) list \<Rightarrow> ranking_line list" where
  "rank_schemes final_values =
     map (\<lambda>(i, (scheme_name, v)). Rank (i + 1) scheme_name v)
       (enumerate 0 (sort_key (\<lambda>item. - snd item) final_values))"

definition analyze_scheme_performance ::
  "'a monthly_record_scheme list \<Rightarrow> 'b monthly_record_scheme list
     \<Rightarrow> py_error + (overtake list \<times> ranking_line list)" where
  "analyze_scheme_performance s1_records s2_records =
     (case select_date_and_total s1_records of
        Inl e \<Rightarrow> Inl e
      | Inr df1 \<Rightarrow>
          (case select_date_and_total s2_records of
             Inl e \<Rightarrow> Inl e
           | Inr df2 \<Rightarrow>
               let combined_df = sort_values_Date (merge_outer df1 df2) in
               if combined_df = [] then Inr ([], [])
               else
                 let overtakes = overtake_loop 0 0 combined_df [];
                     ranking =
                       (if combined_df \<noteq> [] then
                          rank_schemes
                            [(scheme58, fst (snd (last combined_df))),
                             (scheme60, snd (snd (last combined_df)))]
                        else [No_data_to_determine_ranking])
                 in Inr (overtakes, ranking)))"

subsection \<open>Scenarios\<close>

text \<open>
  Parameter sets and series used to run the functions on concrete inputs: a taxed
  variant-A run (pension 10000 from month 1, transition at month 3, tax 30%, 12% compounded
  monthly) and its untaxed twin; variant-A runs with a reinvestment rate of -1, with a
  negative contribution and with a negative pension, and a variant-B run with a negative
  pension; the variant-B run of the specification's first scenario; the two series of its
  comparison scenario; and a series that holds month 0 twice, with a one-record series to
  compare it with.
\<close>

definition taxed_pension_args :: scheme1_args where
  "taxed_pension_args =
     \<lparr>end_date = 4, initial_lump_sum_val = 100000, lump_sum_date_val = 0,
      monthly_contribution_val = 1000, s2_pension_start_date = 3,
      s1_contribution_to_provider_end_date_val = 0, s1_pension_amount = 10000,
      s1_pension_start_date = 1, s1_reinvestment_rate = 12 / 100,
      s1_reinvestment_compounding_frequency = 12, s1_sip_fund_growth_rate = 0,
      s1_sip_fund_compounding_frequency = 12, enable_tax = True, tax_rate = 3 / 10\<rparr>"






definition late_pension_args :: scheme2_args where
  "late_pension_args =
     \<lparr>end_date = 13, initial_lump_sum_val = 100000, lump_sum_date_val = 0,
      monthly_contribution_val = 1000, s2_pension_start_date = 12,
      s2_contribution_to_provider_end_date_val = 11, s2_pension_amount = 5000,
      s2_reinvestment_rate = 6 / 100, s2_reinvestment_compounding_frequency = 12\<rparr>"

definition series_record :: "month \<Rightarrow> real \<Rightarrow> monthly_record" where
  "series_record d x =
     \<lparr>Date = d, Contributions_Paid_This_Month = 0, Cumulative_Contributions_Paid = 0,
      Pension_Received_This_Month_Net = 0, Pension_Reinvestment_Pot = 0,
      Total_Accumulated_Value = x\<rparr>"

definition series_A :: "monthly_record list" where
  "series_A = [series_record 0 0, series_record 1 50, series_record 2 150]"

definition series_B :: "monthly_record list" where
  "series_B = [series_record 0 0, series_record 1 100, series_record 2 100]"

definition repeated_month_series :: "monthly_record list" where
  "repeated_month_series = [series_record 0 10, series_record 0 0]"

definition single_record_series :: "monthly_record list" where
  "single_record_series = [series_record 0 5]"

section \<open>The rate converter\<close>

lemma get_monthly_rate_formula:
  assumes "0 < f"
  shows "get_monthly_rate r f = ((1 + r / real f) ^ f) powr (1 / 12) - 1"
  using assms by (simp add: get_monthly_rate_def)

lemma get_monthly_rate_nonneg:
  assumes "0 \<le> r"
  shows "0 \<le> get_monthly_rate r f"
proof (cases "f = 0")
  case True
  then show ?thesis by (simp add: get_monthly_rate_def)
next
  case False
  then have f: "0 < f" by simp
  have "1 \<le> 1 + r / real f" using assms by simp
  then have "1 \<le> (1 + r / real f) ^ f" by (rule one_le_power)
  then have "1 \<le> ((1 + r / real f) ^ f) powr (1 / 12)"
    by (simp add: ge_one_powr_ge_zero)
  then show ?thesis using f by (simp add: get_monthly_rate_formula)
qed


lemma get_monthly_rate_monthly:
  assumes "0 \<le> 1 + r / 12"
  shows "get_monthly_rate r 12 = r / 12"
proof -
  have "((1 + r / 12) ^ 12) powr (1 / 12) = 1 + r / 12"
  proof (cases "1 + r / 12 = 0")
    case True
    then show ?thesis by simp
  next
    case False
    with assms have pos: "0 < 1 + r / 12" by simp
    have "(1 + r / 12) ^ 12 = (1 + r / 12) powr (real (12::nat))"
      using pos by (simp only: powr_realpow)
    then have "((1 + r / 12) ^ 12) powr (1 / 12) = ((1 + r / 12) powr 12) powr (1 / 12)"
      by simp
    also have "\<dots> = (1 + r / 12) powr (12 * (1 / 12))"
      by (simp only: powr_powr)
    finally show ?thesis using pos by simp
  qed
  then show ?thesis
    using get_monthly_rate_formula [of 12 r] by simp
qed

text \<open>
  C8: the rate converter returns 0 whenever the annual rate is 0 or the compounding
  frequency is 0, for every value of the other argument.
\<close>

theorem monthly_rate_zero_guards:
  "get_monthly_rate 0 f = 0 \<and> get_monthly_rate r 0 = 0"
  by (simp add: get_monthly_rate_def)

text \<open>
  The exact value of the formula is strictly increasing in the annual rate on rates from
  \<open>-1\<close> upwards, for a strictly positive frequency. This is a fact of real arithmetic and
  does not carry over to the floats of the program.
\<close>

lemma exact_formula_strict_mono:
  assumes "0 < f" and "- 1 \<le> r1" and "r1 < r2"
  shows "get_monthly_rate r1 f < get_monthly_rate r2 f"
proof -
  have f1: "1 \<le> real f" using assms(1) by simp
  have "- 1 \<le> r1 / real f"
  proof -
    have "- real f \<le> r1" using f1 assms(2) by linarith
    then show ?thesis using assms(1) by (simp add: pos_le_divide_eq)
  qed
  then have b1: "0 \<le> 1 + r1 / real f" by linarith
  have "r1 / real f < r2 / real f"
    using assms(1,3) by (simp add: divide_strict_right_mono)
  then have b2: "1 + r1 / real f < 1 + r2 / real f" by simp
  have "(1 + r1 / real f) ^ f < (1 + r2 / real f) ^ f"
    using b1 b2 assms(1) by (simp add: power_strict_mono)
  moreover have "0 \<le> (1 + r1 / real f) ^ f" using b1 by simp
  ultimately have "((1 + r1 / real f) ^ f) powr (1 / 12) < ((1 + r2 / real f) ^ f) powr (1 / 12)"
    by (simp add: powr_less_mono2)
  then show ?thesis
    using assms(1) by (simp add: get_monthly_rate_formula)
qed

section \<open>Variant A: the loop and its steps\<close>

lemma scheme1_loop_stop:
  "end_date_dt < current_date \<Longrightarrow> scheme1_loop a end_date_dt ms mr current_date v records = (v, records)"
  by (subst scheme1_loop.simps) simp

lemma scheme1_loop_step:
  "current_date \<le> end_date_dt \<Longrightarrow>
   scheme1_loop a end_date_dt ms mr current_date v records =
   scheme1_loop a end_date_dt ms mr (current_date + 1) (scheme1_month a ms mr current_date v)
     (records @ [scheme1_emit current_date (scheme1_month a ms mr current_date v)])"
  by (subst scheme1_loop.simps) (simp add: Let_def)

lemma scheme1_loop_dates:
  "map Date (snd (scheme1_loop a e ms mr cur v records)) = map Date records @ [cur..e]"
proof (induction a e ms mr cur v records rule: scheme1_loop.induct)
  case (1 a e ms mr cur v records)
  show ?case
  proof (cases "cur \<le> e")
    case True
    have "Date (scheme1_emit cur (scheme1_month a ms mr cur v)) = cur"
      by (simp add: scheme1_emit_def Let_def)
    with True "1.IH" [OF True refl] show ?thesis
      by (simp add: scheme1_loop_step upto_rec1)
  next
    case False
    then show ?thesis by (simp add: scheme1_loop_stop)
  qed
qed

lemma scheme1_loop_records:
  assumes "\<forall>r \<in> set records. P r"
    and "\<forall>d w. P (scheme1_emit d (scheme1_month a ms mr d w))"
  shows "\<forall>r \<in> set (snd (scheme1_loop a e ms mr cur v records)). P r"
  using assms
proof (induction a e ms mr cur v records rule: scheme1_loop.induct)
  case (1 a e ms mr cur v records)
  show ?case
  proof (cases "cur \<le> e")
    case True
    have "\<forall>r\<in>set (records @ [scheme1_emit cur (scheme1_month a ms mr cur v)]). P r"
      using "1.prems" by simp
    with True "1.IH" [OF True refl] "1.prems"(2) show ?thesis
      by (simp add: scheme1_loop_step)
  next
    case False
    then show ?thesis using "1.prems" by (simp add: scheme1_loop_stop)
  qed
qed

lemma s1_reset_month_sel:
  "interest_earned_on_reinvestment_gross (s1_reset_month v) = 0"
  "tax_on_pension_this_month (s1_reset_month v) = 0"
  "pension_received_this_month_gross (s1_reset_month v) = 0"
  "pension_received_this_month_net (s1_reset_month v) = 0"
  "total_tax_paid_on_pension (s1_reset_month v) = total_tax_paid_on_pension v"
  "pension_reinvestment_pot_s1 (s1_reset_month v) = pension_reinvestment_pot_s1 v"
  "sip_fund_balance_s1 (s1_reset_month v) = sip_fund_balance_s1 v"
  by (simp_all add: s1_reset_month_def)

lemma s1_lump_sum_sel:
  "interest_earned_on_reinvestment_gross (s1_lump_sum a d v) = interest_earned_on_reinvestment_gross v"
  "tax_on_pension_this_month (s1_lump_sum a d v) = tax_on_pension_this_month v"
  "pension_received_this_month_gross (s1_lump_sum a d v) = pension_received_this_month_gross v"
  "pension_received_this_month_net (s1_lump_sum a d v) = pension_received_this_month_net v"
  "total_tax_paid_on_pension (s1_lump_sum a d v) = total_tax_paid_on_pension v"
  "pension_reinvestment_pot_s1 (s1_lump_sum a d v) = pension_reinvestment_pot_s1 v"
  "sip_fund_balance_s1 (s1_lump_sum a d v) = sip_fund_balance_s1 v"
  by (simp_all add: s1_lump_sum_def)

lemma s1_contribution_sel:
  "interest_earned_on_reinvestment_gross (s1_contribution a ms d v) = interest_earned_on_reinvestment_gross v"
  "tax_on_pension_this_month (s1_contribution a ms d v) = tax_on_pension_this_month v"
  "pension_received_this_month_gross (s1_contribution a ms d v) = pension_received_this_month_gross v"
  "pension_received_this_month_net (s1_contribution a ms d v) = pension_received_this_month_net v"
  "total_tax_paid_on_pension (s1_contribution a ms d v) = total_tax_paid_on_pension v"
  "pension_reinvestment_pot_s1 (s1_contribution a ms d v) = pension_reinvestment_pot_s1 v"
  by (simp_all add: s1_contribution_def Let_def)

lemma s1_pension_sel:
  "interest_earned_on_reinvestment_gross (s1_pension a d v) = interest_earned_on_reinvestment_gross v"
  "sip_fund_balance_s1 (s1_pension a d v) = sip_fund_balance_s1 v"
  by (simp_all add: s1_pension_def Let_def)

lemma s1_merger_sel:
  "interest_earned_on_reinvestment_gross (s1_merger a d v) = interest_earned_on_reinvestment_gross v"
  "tax_on_pension_this_month (s1_merger a d v) = tax_on_pension_this_month v"
  "pension_received_this_month_gross (s1_merger a d v) = pension_received_this_month_gross v"
  "pension_received_this_month_net (s1_merger a d v) = pension_received_this_month_net v"
  "total_tax_paid_on_pension (s1_merger a d v) = total_tax_paid_on_pension v"
  by (simp_all add: s1_merger_def)

lemma s1_growth_sel:
  "interest_earned_on_reinvestment_gross (s1_growth a mr d v) = interest_earned_on_reinvestment_gross v"
  "tax_on_pension_this_month (s1_growth a mr d v) = tax_on_pension_this_month v"
  "pension_received_this_month_gross (s1_growth a mr d v) = pension_received_this_month_gross v"
  "pension_received_this_month_net (s1_growth a mr d v) = pension_received_this_month_net v"
  "total_tax_paid_on_pension (s1_growth a mr d v) = total_tax_paid_on_pension v"
  "sip_fund_balance_s1 (s1_growth a mr d v) = sip_fund_balance_s1 v"
  by (simp_all add: s1_growth_def Let_def)

lemma s1_pension_fields:
  "pension_received_this_month_gross (s1_pension a d v) =
     (if s1_pension_start_date a \<le> d then s1_pension_amount a
      else pension_received_this_month_gross v)"
  "tax_on_pension_this_month (s1_pension a d v) =
     (if s1_pension_start_date a \<le> d then
        if enable_tax a \<and> d < s2_pension_start_date a
        then s1_pension_amount a * tax_rate a else 0
      else tax_on_pension_this_month v)"
  "pension_received_this_month_net (s1_pension a d v) =
     (if s1_pension_start_date a \<le> d then
        if enable_tax a \<and> d < s2_pension_start_date a
        then s1_pension_amount a - s1_pension_amount a * tax_rate a else s1_pension_amount a
      else pension_received_this_month_net v)"
  "total_tax_paid_on_pension (s1_pension a d v) =
     total_tax_paid_on_pension v + tax_on_pension_this_month (s1_pension a d v)
       - (if s1_pension_start_date a \<le> d then 0 else tax_on_pension_this_month v)"
  by (simp_all add: s1_pension_def Let_def)

lemma s1_month_gross_interest:
  "interest_earned_on_reinvestment_gross (scheme1_month a ms mr d w) = 0"
  by (simp add: scheme1_month_def s1_growth_sel s1_merger_sel s1_pension_sel
      s1_contribution_sel s1_lump_sum_sel s1_reset_month_sel)

lemma s1_month_pension_fields:
  "pension_received_this_month_gross (scheme1_month a ms mr d w) =
     (if s1_pension_start_date a \<le> d then s1_pension_amount a else 0)"
  "tax_on_pension_this_month (scheme1_month a ms mr d w) =
     (if s1_pension_start_date a \<le> d \<and> enable_tax a \<and> d < s2_pension_start_date a
      then s1_pension_amount a * tax_rate a else 0)"
  "pension_received_this_month_net (scheme1_month a ms mr d w) =
     (if s1_pension_start_date a \<le> d then
        if enable_tax a \<and> d < s2_pension_start_date a
        then s1_pension_amount a - s1_pension_amount a * tax_rate a else s1_pension_amount a
      else 0)"
  by (simp_all add: scheme1_month_def s1_growth_sel s1_merger_sel s1_pension_fields
      s1_contribution_sel s1_lump_sum_sel s1_reset_month_sel)

lemma s1_month_tax_total:
  "total_tax_paid_on_pension (scheme1_month a ms mr d w) =
     total_tax_paid_on_pension w + tax_on_pension_this_month (scheme1_month a ms mr d w)"
  by (simp add: scheme1_month_def s1_growth_sel s1_merger_sel s1_pension_fields
      s1_contribution_sel s1_lump_sum_sel s1_reset_month_sel)

lemma scheme1_emit_sel:
  "Date (scheme1_emit d v) = d"
  "Tax_on_Pension_This_Month (scheme1_emit d v) = tax_on_pension_this_month v"
  "Pension_Received_This_Month_Gross (scheme1_emit d v) = pension_received_this_month_gross v"
  "Pension_Received_This_Month_Net (scheme1_emit d v) = pension_received_this_month_net v"
  "Interest_on_Pension_Reinvestment_Gross (scheme1_emit d v) = interest_earned_on_reinvestment_gross v"
  "Total_Accumulated_Value (scheme1_emit d v) = pension_reinvestment_pot_s1 v + sip_fund_balance_s1 v"
  by (simp_all add: scheme1_emit_def Let_def)

lemma scheme1_loop_tax_total:
  "total_tax_paid_on_pension (fst (scheme1_loop a e ms mr cur v records))
     + sum_list (map Tax_on_Pension_This_Month records) =
   total_tax_paid_on_pension v
     + sum_list (map Tax_on_Pension_This_Month (snd (scheme1_loop a e ms mr cur v records)))"
proof (induction a e ms mr cur v records rule: scheme1_loop.induct)
  case (1 a e ms mr cur v records)
  show ?case
  proof (cases "cur \<le> e")
    case True
    with "1.IH" [OF True refl] s1_month_tax_total [of a ms mr cur v] show ?thesis
      by (simp add: scheme1_loop_step scheme1_emit_sel)
  next
    case False
    then show ?thesis by (simp add: scheme1_loop_stop)
  qed
qed











section \<open>Variant B: the loop and its steps\<close>

lemma scheme2_loop_stop:
  "end_date_dt < current_date \<Longrightarrow> scheme2_loop a end_date_dt mr current_date v records = (v, records)"
  by (subst scheme2_loop.simps) simp

lemma scheme2_loop_step:
  "current_date \<le> end_date_dt \<Longrightarrow>
   scheme2_loop a end_date_dt mr current_date v records =
   scheme2_loop a end_date_dt mr (current_date + 1) (scheme2_month a mr current_date v)
     (records @ [scheme2_emit current_date (scheme2_month a mr current_date v)])"
  by (subst scheme2_loop.simps) (simp add: Let_def)

lemma scheme2_emit_sel:
  "Date (scheme2_emit d v) = d"
  "Total_Accumulated_Value (scheme2_emit d v) = pension_reinvestment_pot_s2 v"
  by (simp_all add: scheme2_emit_def)

lemma scheme2_loop_dates:
  "map Date (snd (scheme2_loop a e mr cur v records)) = map Date records @ [cur..e]"
proof (induction a e mr cur v records rule: scheme2_loop.induct)
  case (1 a e mr cur v records)
  show ?case
  proof (cases "cur \<le> e")
    case True
    with "1.IH" [OF True refl] show ?thesis
      by (simp add: scheme2_loop_step upto_rec1 scheme2_emit_sel)
  next
    case False
    then show ?thesis by (simp add: scheme2_loop_stop)
  qed
qed




section \<open>The simulators\<close>

lemmas scheme1_eval =
  scheme1_loop_step scheme1_loop_stop scheme1_month_def s1_growth_def s1_merger_def
  s1_pension_def s1_contribution_def s1_lump_sum_def s1_reset_month_def scheme1_emit_def
  scheme1_init_def Let_def

lemma taxed_rates:
  "get_monthly_rate (s1_reinvestment_rate taxed_pension_args)
     (s1_reinvestment_compounding_frequency taxed_pension_args) = 1 / 100"
  "get_monthly_rate (s1_sip_fund_growth_rate taxed_pension_args)
     (s1_sip_fund_compounding_frequency taxed_pension_args) = 0"
  by (simp_all add: taxed_pension_args_def get_monthly_rate_monthly monthly_rate_zero_guards)

lemma calc1_records:
  "fst (calculate_scheme1_logic a) =
     snd (scheme1_loop a (end_date a)
       (get_monthly_rate (s1_sip_fund_growth_rate a) (s1_sip_fund_compounding_frequency a))
       (get_monthly_rate (s1_reinvestment_rate a) (s1_reinvestment_compounding_frequency a))
       (lump_sum_date_val a) scheme1_init [])"
  by (simp add: calculate_scheme1_logic_def Let_def split_beta)

lemma calc1_pension_tax:
  "fst (snd (snd (snd (calculate_scheme1_logic a)))) =
     total_tax_paid_on_pension (fst (scheme1_loop a (end_date a)
       (get_monthly_rate (s1_sip_fund_growth_rate a) (s1_sip_fund_compounding_frequency a))
       (get_monthly_rate (s1_reinvestment_rate a) (s1_reinvestment_compounding_frequency a))
       (lump_sum_date_val a) scheme1_init []))"
  by (simp add: calculate_scheme1_logic_def Let_def split_beta)

lemma calc2_records:
  "fst (calculate_scheme2_logic a) =
     snd (scheme2_loop a (end_date a)
       (get_monthly_rate (s2_reinvestment_rate a) (s2_reinvestment_compounding_frequency a))
       (lump_sum_date_val a) scheme2_init [])"
  by (simp add: calculate_scheme2_logic_def Let_def split_beta)

lemma scheme1_gross_interest_field:
  "\<forall>r \<in> set (fst (calculate_scheme1_logic a)). Interest_on_Pension_Reinvestment_Gross r = 0"
  unfolding calc1_records
  by (rule scheme1_loop_records) (simp_all add: scheme1_emit_sel s1_month_gross_interest)

text \<open>
  C3 (gross reinvestment interest in the record). The claim is that in a month whose pot
  balance after inflows is positive the record's gross-interest field is that balance times
  the monthly rate, with net = gross - tax. The loop body computes this product into
  \<^verbatim>\<open>current_reinvestment_interest_gross\<close> but writes the record from
  \<^verbatim>\<open>interest_earned_on_reinvestment_gross\<close>, which keeps its reset value: every record of
  every run reports 0 (\<open>scheme1_gross_interest_field\<close>). In the run below, month 1 has a
  balance of 7000 after the net pension, the monthly rate is 1/100 and the gross interest
  is 70; the record shows gross 0, tax 21 and net 49.
\<close>

theorem gross_interest_reported_as_zero:
  "get_monthly_rate (s1_reinvestment_rate taxed_pension_args)
     (s1_reinvestment_compounding_frequency taxed_pension_args) = 1 / 100
   \<and> Date (fst (calculate_scheme1_logic taxed_pension_args) ! 1) = 1
   \<and> Pension_Reinvestment_Pot (fst (calculate_scheme1_logic taxed_pension_args) ! 1) = 7049
   \<and> Interest_on_Pension_Reinvestment_Gross
        (fst (calculate_scheme1_logic taxed_pension_args) ! 1) = 0
   \<and> Tax_on_Reinvestment_Interest_This_Month
        (fst (calculate_scheme1_logic taxed_pension_args) ! 1) = 21
   \<and> Interest_on_Pension_Reinvestment_Net
        (fst (calculate_scheme1_logic taxed_pension_args) ! 1) = 49"
  unfolding calculate_scheme1_logic_def taxed_rates
  by (simp add: taxed_pension_args_def scheme1_eval)

lemma s1_steps_end_date:
  "s1_lump_sum (a\<lparr>end_date := x\<rparr>) d w = s1_lump_sum a d w"
  "s1_contribution (a\<lparr>end_date := x\<rparr>) ms d w = s1_contribution a ms d w"
  "s1_pension (a\<lparr>end_date := x\<rparr>) d w = s1_pension a d w"
  "s1_merger (a\<lparr>end_date := x\<rparr>) d w = s1_merger a d w"
  "s1_growth (a\<lparr>end_date := x\<rparr>) mr d w = s1_growth a mr d w"
  by (simp_all add: s1_growth_def s1_merger_def s1_pension_def s1_contribution_def s1_lump_sum_def
      Let_def cong: if_cong)

lemma scheme1_month_end_date:
  "scheme1_month (a\<lparr>end_date := x\<rparr>) ms mr d w = scheme1_month a ms mr d w"
  by (simp only: scheme1_month_def s1_steps_end_date)

lemma scheme1_loop_end_date:
  "scheme1_loop (a\<lparr>end_date := x\<rparr>) e ms mr cur v records = scheme1_loop a e ms mr cur v records"
proof (induction a e ms mr cur v records rule: scheme1_loop.induct)
  case (1 a e ms mr cur v records)
  show ?case
  proof (cases "cur \<le> e")
    case True
    with "1.IH" [OF True refl] show ?thesis
      by (simp add: scheme1_loop_step scheme1_month_end_date)
  next
    case False
    then show ?thesis by (simp add: scheme1_loop_stop)
  qed
qed

lemma scheme1_loop_next_horizon:
  assumes "cur \<le> e + 1"
  shows "fst (scheme1_loop a (e + 1) ms mr cur v records) =
           scheme1_month a ms mr (e + 1) (fst (scheme1_loop a e ms mr cur v records))"
  using assms
proof (induction a e ms mr cur v records rule: scheme1_loop.induct)
  case (1 a e ms mr cur v records)
  show ?case
  proof (cases "cur \<le> e")
    case True
    with "1.IH" [OF True refl] show ?thesis
      by (simp add: scheme1_loop_step)
  next
    case False
    with "1.prems" have "cur = e + 1" by simp
    then show ?thesis by (simp add: scheme1_loop_step scheme1_loop_stop)
  qed
qed

lemma calc1_pension_tax_next:
  assumes "lump_sum_date_val a \<le> m"
  shows "fst (snd (snd (snd (calculate_scheme1_logic (a\<lparr>end_date := m\<rparr>))))) =
         fst (snd (snd (snd (calculate_scheme1_logic (a\<lparr>end_date := m - 1\<rparr>)))))
           + (if s1_pension_start_date a \<le> m \<and> enable_tax a \<and> m < s2_pension_start_date a
              then s1_pension_amount a * tax_rate a else 0)"
proof -
  have "lump_sum_date_val a \<le> (m - 1) + 1" using assms by simp
  from scheme1_loop_next_horizon [OF this]
  show ?thesis
    by (simp add: calc1_pension_tax scheme1_loop_end_date s1_month_tax_total
        s1_month_pension_fields)
qed

text \<open>
  C5 (pension tax before the transition month). With tax enabled, every record of a
  variant-A run whose month is at or after the pension start and before the transition
  month shows the pension amount as gross, tax = gross times the tax rate and
  net = gross - tax; every record at or after both months shows tax 0 and net = gross.
  The pension-tax total returned by the run is the sum of the taxes of its records, and
  the running total moves by exactly the month's tax: the total of the run that ends in
  month \<open>m\<close> is the total of the run that ends in month \<open>m - 1\<close> plus
  pension amount times tax rate when \<open>m\<close> is in the taxed window, plus 0 otherwise.
\<close>

theorem pension_tax_before_transition:
  assumes "enable_tax a"
  shows "(\<forall>r \<in> set (fst (calculate_scheme1_logic a)).
            (s1_pension_start_date a \<le> Date r \<and> Date r < s2_pension_start_date a \<longrightarrow>
               Pension_Received_This_Month_Gross r = s1_pension_amount a
               \<and> Tax_on_Pension_This_Month r = Pension_Received_This_Month_Gross r * tax_rate a
               \<and> Pension_Received_This_Month_Net r =
                   Pension_Received_This_Month_Gross r - Tax_on_Pension_This_Month r)
          \<and> (s1_pension_start_date a \<le> Date r \<and> s2_pension_start_date a \<le> Date r \<longrightarrow>
               Pension_Received_This_Month_Gross r = s1_pension_amount a
               \<and> Tax_on_Pension_This_Month r = 0
               \<and> Pension_Received_This_Month_Net r = Pension_Received_This_Month_Gross r))
       \<and> fst (snd (snd (snd (calculate_scheme1_logic a)))) =
           sum_list (map Tax_on_Pension_This_Month (fst (calculate_scheme1_logic a)))
       \<and> (\<forall>m. lump_sum_date_val a \<le> m \<longrightarrow>
             fst (snd (snd (snd (calculate_scheme1_logic (a\<lparr>end_date := m\<rparr>))))) =
               fst (snd (snd (snd (calculate_scheme1_logic (a\<lparr>end_date := m - 1\<rparr>)))))
                 + (if s1_pension_start_date a \<le> m \<and> m < s2_pension_start_date a
                    then s1_pension_amount a * tax_rate a else 0))"
proof (intro conjI)
  show "\<forall>r \<in> set (fst (calculate_scheme1_logic a)).
            (s1_pension_start_date a \<le> Date r \<and> Date r < s2_pension_start_date a \<longrightarrow>
               Pension_Received_This_Month_Gross r = s1_pension_amount a
               \<and> Tax_on_Pension_This_Month r = Pension_Received_This_Month_Gross r * tax_rate a
               \<and> Pension_Received_This_Month_Net r =
                   Pension_Received_This_Month_Gross r - Tax_on_Pension_This_Month r)
          \<and> (s1_pension_start_date a \<le> Date r \<and> s2_pension_start_date a \<le> Date r \<longrightarrow>
               Pension_Received_This_Month_Gross r = s1_pension_amount a
               \<and> Tax_on_Pension_This_Month r = 0
               \<and> Pension_Received_This_Month_Net r = Pension_Received_This_Month_Gross r)"
    unfolding calc1_records
    using assms
    by (intro scheme1_loop_records) (simp_all add: scheme1_emit_sel s1_month_pension_fields)
next
  show "fst (snd (snd (snd (calculate_scheme1_logic a)))) =
           sum_list (map Tax_on_Pension_This_Month (fst (calculate_scheme1_logic a)))"
    unfolding calc1_records calc1_pension_tax
    using scheme1_loop_tax_total [of a "end_date a" _ _ "lump_sum_date_val a" scheme1_init "[]"]
    by (simp add: scheme1_init_def)
next
  show "\<forall>m. lump_sum_date_val a \<le> m \<longrightarrow>
             fst (snd (snd (snd (calculate_scheme1_logic (a\<lparr>end_date := m\<rparr>))))) =
               fst (snd (snd (snd (calculate_scheme1_logic (a\<lparr>end_date := m - 1\<rparr>)))))
                 + (if s1_pension_start_date a \<le> m \<and> m < s2_pension_start_date a
                    then s1_pension_amount a * tax_rate a else 0)"
    using assms by (simp add: calc1_pension_tax_next)
qed

theorem pension_tax_before_transition_witness:
  "enable_tax taxed_pension_args
   \<and> map Date (fst (calculate_scheme1_logic taxed_pension_args)) = [0, 1, 2, 3, 4]
   \<and> map Tax_on_Pension_This_Month (fst (calculate_scheme1_logic taxed_pension_args))
       = [0, 3000, 3000, 0, 0]
   \<and> map Pension_Received_This_Month_Net (fst (calculate_scheme1_logic taxed_pension_args))
       = [0, 7000, 7000, 10000, 10000]
   \<and> fst (snd (snd (snd (calculate_scheme1_logic taxed_pension_args)))) = 6000"
proof -
  have e: "enable_tax taxed_pension_args" by (simp add: taxed_pension_args_def)
  have d: "map Date (fst (calculate_scheme1_logic taxed_pension_args)) = [0, 1, 2, 3, 4]"
    unfolding calculate_scheme1_logic_def taxed_rates
    by (simp add: taxed_pension_args_def scheme1_eval)
  have t: "map Tax_on_Pension_This_Month (fst (calculate_scheme1_logic taxed_pension_args))
       = [0, 3000, 3000, 0, 0]"
    unfolding calculate_scheme1_logic_def taxed_rates
    by (simp add: taxed_pension_args_def scheme1_eval)
  have n: "map Pension_Received_This_Month_Net (fst (calculate_scheme1_logic taxed_pension_args))
       = [0, 7000, 7000, 10000, 10000]"
    unfolding calculate_scheme1_logic_def taxed_rates
    by (simp add: taxed_pension_args_def scheme1_eval)
  from pension_tax_before_transition [OF e]
  have "fst (snd (snd (snd (calculate_scheme1_logic taxed_pension_args)))) =
           sum_list (map Tax_on_Pension_This_Month (fst (calculate_scheme1_logic taxed_pension_args)))"
    by blast
  with e d t n show ?thesis by simp
qed

text \<open>
  C6 (one record per month). In both variants the months of the emitted records are
  exactly \<open>lump_sum_date_val, lump_sum_date_val + 1, \<dots>, end_date\<close>, each once and in
  ascending order (the list \<open>[i..j]\<close>, empty when \<open>j < i\<close>).
\<close>

theorem one_record_per_month:
  "map Date (fst (calculate_scheme1_logic a)) = [lump_sum_date_val a..end_date a]
   \<and> map Date (fst (calculate_scheme2_logic b)) = [lump_sum_date_val b..end_date b]"
  by (simp add: calc1_records calc2_records scheme1_loop_dates scheme2_loop_dates)

text \<open>
  C7 (end before start). When the display end month is before the lump sum month, both
  variants return an empty record list and 0 for the total interest, the final value and
  the two tax totals.
\<close>

theorem empty_horizon:
  assumes "end_date a < lump_sum_date_val a" and "end_date b < lump_sum_date_val b"
  shows "calculate_scheme1_logic a = ([], 0, 0, 0, 0)
         \<and> calculate_scheme2_logic b = ([], 0, 0, 0, 0)"
  using assms
  by (simp add: calculate_scheme1_logic_def calculate_scheme2_logic_def scheme1_loop_stop
      scheme2_loop_stop scheme1_init_def scheme2_init_def)

theorem empty_horizon_witness:
  "end_date (taxed_pension_args\<lparr>end_date := - 1\<rparr>)
     < lump_sum_date_val (taxed_pension_args\<lparr>end_date := - 1\<rparr>)
   \<and> end_date (late_pension_args\<lparr>end_date := - 1\<rparr>)
     < lump_sum_date_val (late_pension_args\<lparr>end_date := - 1\<rparr>)
   \<and> calculate_scheme1_logic (taxed_pension_args\<lparr>end_date := - 1\<rparr>) = ([], 0, 0, 0, 0)
   \<and> calculate_scheme2_logic (late_pension_args\<lparr>end_date := - 1\<rparr>) = ([], 0, 0, 0, 0)"
proof -
  have h1: "end_date (taxed_pension_args\<lparr>end_date := - 1\<rparr>)
     < lump_sum_date_val (taxed_pension_args\<lparr>end_date := - 1\<rparr>)"
    by (simp add: taxed_pension_args_def)
  have h2: "end_date (late_pension_args\<lparr>end_date := - 1\<rparr>)
     < lump_sum_date_val (late_pension_args\<lparr>end_date := - 1\<rparr>)"
    by (simp add: late_pension_args_def)
  from empty_horizon [OF h1 h2] h1 h2 show ?thesis by simp
qed





section \<open>The comparison analyzer\<close>

lemmas analyze_eval =
  analyze_scheme_performance_def select_date_and_total_def series_A_def series_B_def
  series_record_def merge_outer_def merge_month_def month_values_def sort_values_Date_def
  rank_schemes_def

lemma month_values_empty: "month_values df d = [] \<longleftrightarrow> d \<notin> fst ` set df"
  by (auto simp: month_values_def filter_empty_conv)

lemma merge_month_dates: "\<forall>row \<in> set (merge_month df1 df2 d). fst row = d"
  by (auto simp: merge_month_def Let_def)

lemma merge_month_nonempty:
  assumes "d \<in> fst ` set df1 \<union> fst ` set df2"
  shows "merge_month df1 df2 d \<noteq> []"
proof (cases "month_values df1 d = []")
  case True
  then have "month_values df2 d \<noteq> []"
    using assms by (simp add: month_values_empty)
  with True show ?thesis by (simp add: merge_month_def)
next
  case False
  then obtain x xs where xs: "month_values df1 d = x # xs" by (cases "month_values df1 d") auto
  show ?thesis
  proof (cases "month_values df2 d = []")
    case True
    with xs show ?thesis by (simp add: merge_month_def)
  next
    case False
    then obtain y ys where "month_values df2 d = y # ys" by (cases "month_values df2 d") auto
    with xs show ?thesis by (simp add: merge_month_def)
  qed
qed

lemma merge_outer_empty: "merge_outer df1 df2 = [] \<longleftrightarrow> df1 = [] \<and> df2 = []"
proof (rule iffI)
  assume e: "merge_outer df1 df2 = []"
  have "sort (remdups (map fst df1 @ map fst df2)) = []"
  proof (cases "sort (remdups (map fst df1 @ map fst df2))")
    case Nil
    then show ?thesis .
  next
    case (Cons d ks)
    then have "d \<in> set (sort (remdups (map fst df1 @ map fst df2)))" by simp
    then have "d \<in> fst ` set df1 \<union> fst ` set df2" by simp
    then have "merge_month df1 df2 d \<noteq> []" by (rule merge_month_nonempty)
    then show ?thesis using e Cons by (simp add: merge_outer_def)
  qed
  then have "set (sort (remdups (map fst df1 @ map fst df2))) = {}" by (simp only: set_empty)
  then show "df1 = [] \<and> df2 = []" by simp
next
  assume "df1 = [] \<and> df2 = []"
  then show "merge_outer df1 df2 = []" by (simp add: merge_outer_def)
qed

lemma sort_values_Date_empty: "sort_values_Date rows = [] \<longleftrightarrow> rows = []"
proof -
  have "length (sort_values_Date rows) = length rows" by (simp add: sort_values_Date_def)
  then show ?thesis by (metis length_0_conv)
qed

lemma analyze_success_shape:
  assumes "analyze_scheme_performance s1_records s2_records = Inr (overtakes, ranking)"
  shows "s1_records \<noteq> [] \<and> s2_records \<noteq> [] \<and> length ranking = 2"
proof -
  have ne: "s1_records \<noteq> []" "s2_records \<noteq> []"
    using assms
    by (auto simp: analyze_scheme_performance_def select_date_and_total_def split: if_splits)
  then have "\<exists>x y. ranking = rank_schemes [(scheme58, x), (scheme60, y)]"
    using assms
    by (auto simp: analyze_scheme_performance_def select_date_and_total_def merge_outer_empty
        sort_values_Date_empty Let_def)
  then have "length ranking = 2" by (auto simp: rank_schemes_def)
  with ne show ?thesis by simp
qed

text \<open>
  C1 (empty input series). The claim is that an empty series gives an empty overtake list
  and an empty or placeholder ranking. The function selects the two columns of each frame
  first, and that selection raises \<^verbatim>\<open>KeyError\<close> on a frame built from an empty list; so
  the call fails whenever either series is empty, and the \<^verbatim>\<open>combined_df.empty\<close> guard and
  the placeholder branch behind it are never reached: a call that returns had two
  non-empty series and ranks both schemes (\<open>analyze_success_shape\<close>).
\<close>

theorem empty_series_raise_KeyError:
  "analyze_scheme_performance [] s2_records = Inl KeyError
   \<and> analyze_scheme_performance s1_records [] = Inl KeyError"
  by (simp add: analyze_scheme_performance_def select_date_and_total_def split: sum.splits)

text \<open>
  C2 (comparison scenario), as amended. For series A = 0, 50, 150 and series B = 0, 100, 100
  at months 0, 1, 2 the analyzer reports two overtakes: B (the second series, scheme 60)
  overtakes A at month 1, where it leaves the tie at 0, and A overtakes B at month 2. The
  ranking is A with 150, then B with 100.
\<close>

theorem scenario_two_overtakes:
  "analyze_scheme_performance series_A series_B =
     Inr ([Overtakes scheme60 scheme58 1, Overtakes scheme58 scheme60 2],
          [Rank 1 scheme58 150, Rank 2 scheme60 100])"
  by (simp add: analyze_eval)

theorem scenario_single_overtake_refuted:
  "analyze_scheme_performance series_A series_B \<noteq>
     Inr ([Overtakes scheme58 scheme60 2], [Rank 1 scheme58 150, Rank 2 scheme60 100])"
  by (simp add: analyze_eval)

lemma overtake_loop_exclusive:
  assumes "distinct (map fst rows)"
    and "\<forall>d' \<in> set (map fst rows). Overtakes scheme58 scheme60 d' \<notin> set acc
                                    \<and> Overtakes scheme60 scheme58 d' \<notin> set acc"
    and "\<not> (Overtakes scheme58 scheme60 d \<in> set acc \<and> Overtakes scheme60 scheme58 d \<in> set acc)"
  shows "\<not> (Overtakes scheme58 scheme60 d \<in> set (overtake_loop p1 p2 rows acc)
            \<and> Overtakes scheme60 scheme58 d \<in> set (overtake_loop p1 p2 rows acc))"
  using assms
proof (induction rows arbitrary: p1 p2 acc)
  case Nil
  then show ?case by simp
next
  case (Cons row rows)
  obtain d0 x y where row: "row = (d0, x, y)" by (cases row) auto
  define acc1 where "acc1 =
    (if x > y \<and> p1 \<le> p2 \<and> x > 0 then acc @ [Overtakes scheme58 scheme60 d0] else acc)"
  define acc2 where "acc2 =
    (if y > x \<and> p2 \<le> p1 \<and> y > 0 then acc1 @ [Overtakes scheme60 scheme58 d0] else acc1)"
  have step: "overtake_loop p1 p2 (row # rows) acc = overtake_loop x y rows acc2"
    by (simp add: row acc1_def acc2_def)
  have fresh: "Overtakes scheme58 scheme60 d0 \<notin> set acc" "Overtakes scheme60 scheme58 d0 \<notin> set acc"
    using Cons.prems(2) by (simp_all add: row)
  have shape: "acc2 = acc \<or> acc2 = acc @ [Overtakes scheme58 scheme60 d0]
               \<or> acc2 = acc @ [Overtakes scheme60 scheme58 d0]"
  proof (cases "x > y")
    case True
    then have "\<not> y > x" by simp
    then have "acc2 = acc1" by (simp add: acc2_def)
    then show ?thesis by (simp add: acc1_def)
  next
    case False
    then have "acc1 = acc" by (simp add: acc1_def)
    then show ?thesis by (simp add: acc2_def)
  qed
  have sub: "set acc2 \<subseteq> set acc \<union> {Overtakes scheme58 scheme60 d0, Overtakes scheme60 scheme58 d0}"
    using shape by (elim disjE) auto
  have one: "\<not> (Overtakes scheme58 scheme60 d0 \<in> set acc2 \<and> Overtakes scheme60 scheme58 d0 \<in> set acc2)"
    using shape fresh by (elim disjE) (simp_all add: scheme58_def scheme60_def)
  have d1: "distinct (map fst rows)" and notin: "d0 \<notin> set (map fst rows)"
    using Cons.prems(1) by (simp_all add: row)
  have a2: "\<forall>d' \<in> set (map fst rows). Overtakes scheme58 scheme60 d' \<notin> set acc2
                                    \<and> Overtakes scheme60 scheme58 d' \<notin> set acc2"
  proof
    fix d' assume d': "d' \<in> set (map fst rows)"
    then have "d' \<noteq> d0" using notin by auto
    moreover have "Overtakes scheme58 scheme60 d' \<notin> set acc \<and> Overtakes scheme60 scheme58 d' \<notin> set acc"
      using Cons.prems(2) d' by auto
    ultimately show "Overtakes scheme58 scheme60 d' \<notin> set acc2
                     \<and> Overtakes scheme60 scheme58 d' \<notin> set acc2"
      using sub by auto
  qed
  have a3: "\<not> (Overtakes scheme58 scheme60 d \<in> set acc2 \<and> Overtakes scheme60 scheme58 d \<in> set acc2)"
  proof (cases "d = d0")
    case True
    then show ?thesis using one by simp
  next
    case False
    then show ?thesis using Cons.prems(3) sub by auto
  qed
  show ?case
    unfolding step by (rule Cons.IH [OF d1 a2 a3])
qed

lemma month_values_le_one:
  assumes "distinct (map fst df)"
  shows "length (month_values df d) \<le> 1"
  using assms
proof (induction df)
  case Nil
  then show ?case by (simp add: month_values_def)
next
  case (Cons row df)
  show ?case
  proof (cases "fst row = d")
    case True
    then have "d \<notin> fst ` set df" using Cons.prems by auto
    then have "month_values df d = []" by (simp add: month_values_empty)
    then show ?thesis using True by (simp add: month_values_def)
  next
    case False
    then show ?thesis using Cons by (simp add: month_values_def)
  qed
qed

lemma merge_month_le_one:
  assumes "distinct (map fst df1)" and "distinct (map fst df2)"
  shows "length (merge_month df1 df2 d) \<le> 1"
proof -
  have x: "length (month_values df1 d) \<le> 1" using assms(1) by (rule month_values_le_one)
  have y: "length (month_values df2 d) \<le> 1" using assms(2) by (rule month_values_le_one)
  show ?thesis
  proof (cases "month_values df1 d")
    case Nil
    then show ?thesis using y by (simp add: merge_month_def)
  next
    case (Cons x1 xs)
    then have xs: "xs = []" using x by simp
    show ?thesis
    proof (cases "month_values df2 d")
      case Nil
      then show ?thesis using Cons xs by (simp add: merge_month_def)
    next
      case (Cons y1 ys)
      then have "ys = []" using y by simp
      then show ?thesis using \<open>month_values df1 d = x1 # xs\<close> xs Cons
        by (simp add: merge_month_def)
    qed
  qed
qed

lemma concat_dates_distinct:
  assumes "distinct ks"
    and "\<forall>d. length (g d) \<le> 1 \<and> (\<forall>row \<in> set (g d). fst row = d)"
  shows "distinct (map fst (concat (map g ks)))"
  using assms(1)
proof (induction ks)
  case Nil
  then show ?case by simp
next
  case (Cons k ks)
  have one: "length (map fst (g k)) \<le> 1" using assms(2) by simp
  then have d1: "distinct (map fst (g k))"
    by (cases "map fst (g k)") auto
  have here: "set (map fst (g k)) \<subseteq> {k}" using assms(2) by auto
  have there: "set (map fst (concat (map g ks))) \<subseteq> set ks" using assms(2) by auto
  have "k \<notin> set ks" using Cons.prems by simp
  then have "set (map fst (g k)) \<inter> set (map fst (concat (map g ks))) = {}"
    using here there by blast
  moreover have "distinct (map fst (concat (map g ks)))"
    using Cons by simp
  ultimately show ?case using d1 by simp
qed

lemma merged_dates_distinct:
  assumes "distinct (map fst df1)" and "distinct (map fst df2)"
  shows "distinct (map fst (sort_values_Date (merge_outer df1 df2)))"
proof -
  have "distinct (map fst (merge_outer df1 df2))"
    unfolding merge_outer_def
    using merge_month_le_one [OF assms] merge_month_dates
    by (intro concat_dates_distinct) simp_all
  then show ?thesis
    by (simp add: sort_values_Date_def distinct_map)
qed

lemma select_date_and_total_dates:
  assumes "select_date_and_total records = Inr df"
  shows "map fst df = map Date records"
  using assms by (auto simp: select_date_and_total_def comp_def split: if_splits)

text \<open>
  C10 (no mutual overtake in one month), as amended. For two series in which no month
  occurs twice (what both simulators emit), the analyzer never reports both "scheme 58
  overtakes scheme 60" and "scheme 60 overtakes scheme 58" for the same month: the month
  is then one row of the merged frame, and the two conditions of the loop body ask for
  strictly greater values in opposite directions. A series that repeats a month gives that
  month several rows, and two of them can report opposite overtakes
  (\<open>mutual_overtake_with_repeated_month\<close>).
\<close>

theorem no_mutual_overtake_in_one_month:
  assumes "distinct (map Date s1_records)" and "distinct (map Date s2_records)"
    and "analyze_scheme_performance s1_records s2_records = Inr (overtakes, ranking)"
  shows "\<not> (Overtakes scheme58 scheme60 d \<in> set overtakes
            \<and> Overtakes scheme60 scheme58 d \<in> set overtakes)"
proof -
  obtain df1 df2 where df: "select_date_and_total s1_records = Inr df1"
      "select_date_and_total s2_records = Inr df2"
    using assms(3)
    by (auto simp: analyze_scheme_performance_def split: sum.splits)
  have d1: "distinct (map fst df1)" and d2: "distinct (map fst df2)"
    using assms(1,2) df by (simp_all add: select_date_and_total_dates)
  have "overtakes = [] \<or> overtakes = overtake_loop 0 0 (sort_values_Date (merge_outer df1 df2)) []"
    using assms(3) df
    by (auto simp: analyze_scheme_performance_def Let_def split: if_splits)
  then show ?thesis
  proof
    assume "overtakes = []"
    then show ?thesis by simp
  next
    assume ov: "overtakes = overtake_loop 0 0 (sort_values_Date (merge_outer df1 df2)) []"
    show ?thesis
      unfolding ov
      by (rule overtake_loop_exclusive [OF merged_dates_distinct [OF d1 d2]]) simp_all
  qed
qed

theorem no_mutual_overtake_in_one_month_witness:
  "distinct (map Date series_A) \<and> distinct (map Date series_B)
   \<and> analyze_scheme_performance series_A series_B =
       Inr ([Overtakes scheme60 scheme58 1, Overtakes scheme58 scheme60 2],
            [Rank 1 scheme58 150, Rank 2 scheme60 100])
   \<and> \<not> (Overtakes scheme58 scheme60 2
            \<in> set [Overtakes scheme60 scheme58 1, Overtakes scheme58 scheme60 2]
          \<and> Overtakes scheme60 scheme58 2
            \<in> set [Overtakes scheme60 scheme58 1, Overtakes scheme58 scheme60 2])"
proof -
  have h1: "distinct (map Date series_A)" and h2: "distinct (map Date series_B)"
    by (simp_all add: series_A_def series_B_def series_record_def)
  have h3: "analyze_scheme_performance series_A series_B =
       Inr ([Overtakes scheme60 scheme58 1, Overtakes scheme58 scheme60 2],
            [Rank 1 scheme58 150, Rank 2 scheme60 100])"
    by (simp add: analyze_eval)
  from no_mutual_overtake_in_one_month [OF h1 h2 h3, of 2] h1 h2 h3 show ?thesis by blast
qed

theorem mutual_overtake_with_repeated_month:
  "analyze_scheme_performance repeated_month_series single_record_series =
     Inr ([Overtakes scheme58 scheme60 0, Overtakes scheme60 scheme58 0],
          [Rank 1 scheme60 5, Rank 2 scheme58 0])"
  by (simp add: analyze_eval repeated_month_series_def single_record_series_def)

end
